theory Spec2Isabelle
  imports Main "HOL-Library.AList"
begin

section \<open>Python values\<close>

text \<open>
  The program is dynamically typed: \<open>add_item\<close> tests its arguments with
  \<open>isinstance\<close>, \<open>remove_item\<close> relies on the \<open>TypeError\<close> of the subtraction, and
  \<open>load_data\<close> returns whatever dictionary the file holds. Values are therefore modelled
  as the values of Python's built-in types \<open>NoneType\<close>, \<open>bool\<close>, \<open>int\<close>, \<open>float\<close>,
  \<open>complex\<close>, \<open>str\<close>, \<open>list\<close> and \<open>dict\<close>; objects of other classes are not modelled.
  Strings are \<open>string\<close>, one \<open>char\<close> for each code point below 256; the keys of a
  dictionary are strings, as they are for every dictionary this program builds or loads.

  Floating point numbers are kept abstract: the type \<open>'f\<close> stands for Python's
  \<open>float\<close>, and the arithmetic the program can reach on it is a parameter
  (\<open>float_ops\<close>). Every theorem below holds for every choice of that parameter. A complex
  number is its real and its imaginary part, two floats.
\<close>

datatype 'f pyval =
    PNone
  | PBool bool
  | PInt int
  | PFloat 'f
  | PComplex 'f 'f
  | PStr string
  | PList "'f pyval list"
  | PDict "(string \<times> 'f pyval) list"

datatype pytype = NoneType | T_bool | T_int | T_float | T_complex | T_str | T_list | T_dict

fun type_of :: "'f pyval \<Rightarrow> pytype" where
  "type_of PNone = NoneType"
| "type_of (PBool _) = T_bool"
| "type_of (PInt _) = T_int"
| "type_of (PFloat _) = T_float"
| "type_of (PComplex _ _) = T_complex"
| "type_of (PStr _) = T_str"
| "type_of (PList _) = T_list"
| "type_of (PDict _) = T_dict"

text \<open>\<open>isinstance(v, str)\<close> and \<open>isinstance(v, int)\<close>; \<open>bool\<close> is a subclass of \<open>int\<close>.\<close>

definition isinstance_str :: "'f pyval \<Rightarrow> bool" where
  "isinstance_str v = (type_of v = T_str)"

definition isinstance_int :: "'f pyval \<Rightarrow> bool" where
  "isinstance_int v = (type_of v = T_int \<or> type_of v = T_bool)"

text \<open>
  The exceptions, by their classes. \<open>raised_isa e c\<close> says that an exception of class \<open>e\<close>
  is caught by \<open>except c\<close>: \<open>e\<close> is \<open>c\<close> or one of its subclasses. \<open>IOError\<close> is another
  name of \<open>OSError\<close>.
\<close>

datatype exn =
    TypeError
  | ValueError
  | JSONDecodeError
  | UnicodeDecodeError
  | OverflowError
  | RecursionError
  | OSError
  | FileNotFoundError
  | IsADirectoryError
  | NotADirectoryError
  | PermissionError

definition raised_isa :: "exn \<Rightarrow> exn \<Rightarrow> bool" where
  "raised_isa e c =
     (e = c \<or>
      (c = OSError \<and>
         (e = FileNotFoundError \<or> e = IsADirectoryError \<or> e = NotADirectoryError \<or>
          e = PermissionError)) \<or>
      (c = ValueError \<and> (e = JSONDecodeError \<or> e = UnicodeDecodeError)))"

text \<open>
  The float operations the program can reach. \<open>float_of_int\<close> is the conversion Python
  applies to the int operand of a mixed operation; it raises \<open>OverflowError\<close> (here
  \<open>None\<close>) on an int too large for a float. The comparisons are those of a float with an
  int, which Python decides exactly. \<open>fzero\<close> is the float \<open>0.0\<close>, the imaginary part an int
  or a float gets when an operation with a complex number converts it.
\<close>

record 'f float_ops =
  float_of_int :: "int \<Rightarrow> 'f option"
  fadd :: "'f \<Rightarrow> 'f \<Rightarrow> 'f"
  fsub :: "'f \<Rightarrow> 'f \<Rightarrow> 'f"
  flt_int :: "'f \<Rightarrow> int \<Rightarrow> bool"
  fle_int :: "'f \<Rightarrow> int \<Rightarrow> bool"
  fzero :: "'f"

datatype 'f num = NInt int | NFloat 'f | NComplex 'f 'f

fun as_num :: "'f pyval \<Rightarrow> 'f num option" where
  "as_num (PInt i) = Some (NInt i)"
| "as_num (PBool b) = Some (NInt (if b then 1 else 0))"
| "as_num (PFloat x) = Some (NFloat x)"
| "as_num (PComplex re im) = Some (NComplex re im)"
| "as_num _ = None"

fun to_complex :: "'f float_ops \<Rightarrow> 'f num \<Rightarrow> exn + 'f \<times> 'f" where
  "to_complex F (NInt a) =
     (case float_of_int F a of None \<Rightarrow> Inl OverflowError | Some x \<Rightarrow> Inr (x, fzero F))"
| "to_complex F (NFloat x) = Inr (x, fzero F)"
| "to_complex F (NComplex re im) = Inr (re, im)"

text \<open>
  Binary arithmetic on two numbers, with \<open>fop\<close> the float and \<open>iop\<close> the int operation:
  two ints give an int, an int and a float give a float, and when one of the two is
  complex both are taken as complex numbers and the operation is made on the real and
  on the imaginary parts.
\<close>

fun num_binop ::
  "'f float_ops \<Rightarrow> (int \<Rightarrow> int \<Rightarrow> int) \<Rightarrow> ('f \<Rightarrow> 'f \<Rightarrow> 'f) \<Rightarrow> 'f num \<Rightarrow> 'f num \<Rightarrow> exn + 'f pyval"
where
  "num_binop F iop fop (NInt a) (NInt b) = Inr (PInt (iop a b))"
| "num_binop F iop fop (NFloat x) (NFloat y) = Inr (PFloat (fop x y))"
| "num_binop F iop fop (NInt a) (NFloat y) =
     (case float_of_int F a of None \<Rightarrow> Inl OverflowError | Some x \<Rightarrow> Inr (PFloat (fop x y)))"
| "num_binop F iop fop (NFloat x) (NInt b) =
     (case float_of_int F b of None \<Rightarrow> Inl OverflowError | Some y \<Rightarrow> Inr (PFloat (fop x y)))"
| "num_binop F iop fop a b =
     (case to_complex F a of
        Inl e \<Rightarrow> Inl e
      | Inr (re1, im1) \<Rightarrow>
          (case to_complex F b of
             Inl e \<Rightarrow> Inl e
           | Inr (re2, im2) \<Rightarrow> Inr (PComplex (fop re1 re2) (fop im1 im2))))"

text \<open>\<open>v + w\<close>: numbers add, strings and lists concatenate, anything else is a \<open>TypeError\<close>.\<close>

definition py_add :: "'f float_ops \<Rightarrow> 'f pyval \<Rightarrow> 'f pyval \<Rightarrow> exn + 'f pyval" where
  "py_add F v w =
     (case (as_num v, as_num w) of
        (Some a, Some b) \<Rightarrow> num_binop F (+) (fadd F) a b
      | _ \<Rightarrow>
        (case (v, w) of
           (PStr s, PStr t) \<Rightarrow> Inr (PStr (s @ t))
         | (PList xs, PList ys) \<Rightarrow> Inr (PList (xs @ ys))
         | _ \<Rightarrow> Inl TypeError))"

text \<open>\<open>v - w\<close>: defined on numbers only.\<close>

definition py_sub :: "'f float_ops \<Rightarrow> 'f pyval \<Rightarrow> 'f pyval \<Rightarrow> exn + 'f pyval" where
  "py_sub F v w =
     (case (as_num v, as_num w) of
        (Some a, Some b) \<Rightarrow> num_binop F (-) (fsub F) a b
      | _ \<Rightarrow> Inl TypeError)"

text \<open>
  \<open>v <= n\<close> and \<open>v < n\<close> for an int \<open>n\<close>: a \<open>TypeError\<close> unless \<open>v\<close> is an int, a bool or a
  float; complex numbers are not ordered.
\<close>

definition py_le_int :: "'f float_ops \<Rightarrow> 'f pyval \<Rightarrow> int \<Rightarrow> exn + bool" where
  "py_le_int F v n =
     (case as_num v of
        Some (NInt a) \<Rightarrow> Inr (a \<le> n)
      | Some (NFloat x) \<Rightarrow> Inr (fle_int F x n)
      | _ \<Rightarrow> Inl TypeError)"

definition py_lt_int :: "'f float_ops \<Rightarrow> 'f pyval \<Rightarrow> int \<Rightarrow> exn + bool" where
  "py_lt_int F v n =
     (case as_num v of
        Some (NInt a) \<Rightarrow> Inr (a < n)
      | Some (NFloat x) \<Rightarrow> Inr (flt_int F x n)
      | _ \<Rightarrow> Inl TypeError)"

section \<open>The inventory\<close>

text \<open>
  A Python \<open>dict\<close> keeps its keys in insertion order, and \<open>check_low_items\<close> returns
  names in that order, so the inventory is an association list. \<open>inventory[k] = v\<close> is
  \<open>AList.update k v\<close> (in place when the key is there, at the end otherwise),
  \<open>del inventory[k]\<close> is \<open>AList.delete k\<close> and a lookup is \<open>map_of\<close>.
\<close>

type_synonym 'f inventory = "(string \<times> 'f pyval) list"

text \<open>
  Using a value as a dictionary key: a list or a dict is unhashable (\<open>TypeError\<close>); a
  string is the key it spells; any other value is hashable but equal to no string.
\<close>

fun key_of :: "'f pyval \<Rightarrow> exn + string option" where
  "key_of (PStr k) = Inr (Some k)"
| "key_of (PList _) = Inl TypeError"
| "key_of (PDict _) = Inl TypeError"
| "key_of _ = Inr None"

text \<open>What the program prints; the time stamp of the confirmation of an addition is left out.\<close>

datatype 'f msg =
    Error_invalid_types pytype pytype
  | Added "'f pyval" "'f pyval"
  | Warning_not_in_stock "'f pyval"
  | Removed_all "'f pyval"
  | Removed "'f pyval" "'f pyval" "'f pyval"
  | Error_invalid_quantity "'f pyval" "'f pyval"
  | Error_not_a_dictionary
  | Warning_file_not_found string
  | Error_could_not_decode string
  | Inventory_saved string
  | Error_saving string exn

text \<open>
  The functions receive the dictionary by reference. A call is modelled by the
  dictionary it leaves (\<open>store\<close>), the lines it prints, and what it returns: a value, or
  the exception that leaves the function uncaught.
\<close>

record 'f result =
  store :: "'f inventory"
  printed :: "'f msg list"
  returned :: "exn + 'f pyval"

section \<open>The operations\<close>

text \<open>
  In \<open>add_item\<close> the item is a string once the type test has passed, so the last case
  of the \<open>case\<close> below is never taken.
\<close>

definition add_item :: "'f float_ops \<Rightarrow> 'f inventory \<Rightarrow> 'f pyval \<Rightarrow> 'f pyval \<Rightarrow> 'f result" where
  "add_item F inventory item qty =
     (if \<not> isinstance_str item \<or> \<not> isinstance_int qty then
        \<lparr>store = inventory,
         printed = [Error_invalid_types (type_of item) (type_of qty)],
         returned = Inr PNone\<rparr>
      else
        (case item of
           PStr k \<Rightarrow>
             (case py_add F (case map_of inventory k of None \<Rightarrow> PInt 0 | Some v \<Rightarrow> v) qty of
                Inl e \<Rightarrow> \<lparr>store = inventory, printed = [], returned = Inl e\<rparr>
              | Inr v \<Rightarrow>
                  \<lparr>store = AList.update k v inventory,
                   printed = [Added qty item],
                   returned = Inr PNone\<rparr>)
         | _ \<Rightarrow> \<lparr>store = inventory, printed = [], returned = Inl TypeError\<rparr>))"

text \<open>The handler of \<open>remove_item\<close>: \<open>except (TypeError, ValueError)\<close>.\<close>

definition remove_handler ::
  "'f inventory \<Rightarrow> 'f pyval \<Rightarrow> 'f pyval \<Rightarrow> exn \<Rightarrow> 'f result" where
  "remove_handler inventory item qty e =
     (if raised_isa e TypeError \<or> raised_isa e ValueError then
        \<lparr>store = inventory, printed = [Error_invalid_quantity qty item], returned = Inr PNone\<rparr>
      else
        \<lparr>store = inventory, printed = [], returned = Inl e\<rparr>)"

definition remove_item :: "'f float_ops \<Rightarrow> 'f inventory \<Rightarrow> 'f pyval \<Rightarrow> 'f pyval \<Rightarrow> 'f result" where
  "remove_item F inventory item qty =
     (case key_of item of
        Inl e \<Rightarrow> \<lparr>store = inventory, printed = [], returned = Inl e\<rparr>
      | Inr None \<Rightarrow>
          \<lparr>store = inventory, printed = [Warning_not_in_stock item], returned = Inr PNone\<rparr>
      | Inr (Some k) \<Rightarrow>
          (case map_of inventory k of
             None \<Rightarrow>
               \<lparr>store = inventory, printed = [Warning_not_in_stock item], returned = Inr PNone\<rparr>
           | Some old \<Rightarrow>
               (case py_sub F old qty of
                  Inl e \<Rightarrow> remove_handler inventory item qty e
                | Inr v \<Rightarrow>
                    (case py_le_int F v 0 of
                       Inl e \<Rightarrow> remove_handler (AList.update k v inventory) item qty e
                     | Inr True \<Rightarrow>
                         \<lparr>store = AList.delete k (AList.update k v inventory),
                          printed = [Removed_all item],
                          returned = Inr PNone\<rparr>
                     | Inr False \<Rightarrow>
                         \<lparr>store = AList.update k v inventory,
                          printed = [Removed qty item v],
                          returned = Inr PNone\<rparr>))))"

definition get_qty :: "'f inventory \<Rightarrow> 'f pyval \<Rightarrow> 'f result" where
  "get_qty inventory item =
     (case key_of item of
        Inl e \<Rightarrow> \<lparr>store = inventory, printed = [], returned = Inl e\<rparr>
      | Inr None \<Rightarrow> \<lparr>store = inventory, printed = [], returned = Inr (PInt 0)\<rparr>
      | Inr (Some k) \<Rightarrow>
          \<lparr>store = inventory, printed = [],
           returned = Inr (case map_of inventory k of None \<Rightarrow> PInt 0 | Some v \<Rightarrow> v)\<rparr>)"

text \<open>
  The list comprehension of \<open>check_low_items\<close>: the entries are visited in order, and
  the first comparison that raises ends the comprehension.
\<close>

fun low_items :: "'f float_ops \<Rightarrow> 'f inventory \<Rightarrow> int \<Rightarrow> exn + string list" where
  "low_items F [] threshold = Inr []"
| "low_items F ((item, qty) # rest) threshold =
     (case py_lt_int F qty threshold of
        Inl e \<Rightarrow> Inl e
      | Inr low \<Rightarrow>
          (case low_items F rest threshold of
             Inl e \<Rightarrow> Inl e
           | Inr items \<Rightarrow> Inr (if low then item # items else items)))"

definition check_low_items :: "'f float_ops \<Rightarrow> 'f inventory \<Rightarrow> int \<Rightarrow> 'f result" where
  "check_low_items F inventory threshold =
     \<lparr>store = inventory, printed = [],
      returned = (case low_items F inventory threshold of
                    Inl e \<Rightarrow> Inl e
                  | Inr items \<Rightarrow> Inr (PList (map PStr items)))\<rparr>"

section \<open>Persistence\<close>

text \<open>
  The file system says for every path what opening it does. \<open>reading\<close> is the outcome of
  \<open>open(path, "r")\<close> followed by reading the file: the bytes of the file, or the exception
  of the open (\<open>FileNotFoundError\<close> where there is no file, \<open>IsADirectoryError\<close> for a
  directory, \<open>NotADirectoryError\<close> for a path that goes through a regular file,
  \<open>PermissionError\<close>, \<open>ValueError\<close> for a path with a NUL character). \<open>writing\<close> is the
  exception of \<open>open(path, "w")\<close>, if it raises (the same ones, with \<open>FileNotFoundError\<close>
  for a missing parent directory or the empty path); otherwise the open creates the file
  or empties it.
\<close>

record node =
  reading :: "exn + string"
  writing :: "exn option"

type_synonym filesystem = "string \<Rightarrow> node"

text \<open>
  The file system after a text was written to a path that was opened for writing. A path
  that could not be read because there was no file, or that held a file that could be
  read, now reads as the text; a path that could not be read for another reason still
  cannot.
\<close>

definition written :: "filesystem \<Rightarrow> string \<Rightarrow> string \<Rightarrow> filesystem" where
  "written fs filename text =
     fs(filename :=
          (fs filename)\<lparr>reading :=
             (case reading (fs filename) of
                Inl e \<Rightarrow> if e = FileNotFoundError then Inr text else Inl e
              | Inr old \<Rightarrow> Inr text)\<rparr>)"

text \<open>
  Python's \<open>json\<close> module is not part of the program and is a parameter. \<open>dump J v\<close> is
  what \<open>json.dump(v, file_handle, indent=4)\<close> does: the text it writes to the file, and
  the exception that ends it, if any (the text is then what was written before).
  \<open>load J bytes\<close> is what \<open>json.load(file_handle)\<close> does on a file with these bytes, opened
  as UTF-8 text: the value it returns or the exception it raises.
\<close>

record 'f json =
  dump :: "'f pyval \<Rightarrow> string \<times> exn option"
  load :: "string \<Rightarrow> exn + 'f pyval"




text \<open>
  \<open>save_data\<close> opens the file for writing and lets \<open>json.dump\<close> write to it. It leaves
  the file system, what it printed, and the exception that leaves it, if any. The
  handler is \<open>except IOError\<close>.
\<close>

record 'f saved =
  files :: filesystem
  save_printed :: "'f msg list"
  save_raised :: "exn option"

definition save_handler :: "filesystem \<Rightarrow> string \<Rightarrow> exn \<Rightarrow> 'f saved" where
  "save_handler fs filename e =
     (if raised_isa e OSError then
        \<lparr>files = fs, save_printed = [Error_saving filename e], save_raised = None\<rparr>
      else
        \<lparr>files = fs, save_printed = [], save_raised = Some e\<rparr>)"

definition save_data :: "'f json \<Rightarrow> filesystem \<Rightarrow> 'f inventory \<Rightarrow> string \<Rightarrow> 'f saved" where
  "save_data J fs inventory filename =
     (case writing (fs filename) of
        Some e \<Rightarrow> save_handler fs filename e
      | None \<Rightarrow>
          (case dump J (PDict inventory) of
             (text, Some e) \<Rightarrow> save_handler (written fs filename text) filename e
           | (text, None) \<Rightarrow>
               \<lparr>files = written fs filename text,
                save_printed = [Inventory_saved filename],
                save_raised = None\<rparr>))"

section \<open>Sequences of calls\<close>

datatype 'f call =
    Add "'f pyval" "'f pyval"
  | Remove "'f pyval" "'f pyval"
  | GetQuantity "'f pyval"
  | CheckLowStock int

fun do_call :: "'f float_ops \<Rightarrow> 'f inventory \<Rightarrow> 'f call \<Rightarrow> 'f result" where
  "do_call F inventory (Add item qty) = add_item F inventory item qty"
| "do_call F inventory (Remove item qty) = remove_item F inventory item qty"
| "do_call F inventory (GetQuantity item) = get_qty inventory item"
| "do_call F inventory (CheckLowStock threshold) = check_low_items F inventory threshold"

text \<open>
  A caller that makes the calls one after the other on the same dictionary, as \<open>main\<close>
  does: an exception that leaves a call ends the sequence. The result is the dictionary
  as the sequence leaves it, and the exception that ended it, if any.
\<close>

fun run :: "'f float_ops \<Rightarrow> 'f inventory \<Rightarrow> 'f call list \<Rightarrow> 'f inventory \<times> exn option" where
  "run F inventory [] = (inventory, None)"
| "run F inventory (c # cs) =
     (case returned (do_call F inventory c) of
        Inl e \<Rightarrow> (store (do_call F inventory c), Some e)
      | Inr _ \<Rightarrow> run F (store (do_call F inventory c)) cs)"

section \<open>Notions of the specification\<close>

text \<open>An inventory whose quantities are integers, given by its items in order.\<close>

definition of_ints :: "(string \<times> int) list \<Rightarrow> 'f inventory" where
  "of_ints kvs = map (\<lambda>(k, q). (k, PInt q)) kvs"

text \<open>\<open>item in inventory\<close>, for an item that can be looked up at all.\<close>

definition in_inventory :: "'f inventory \<Rightarrow> 'f pyval \<Rightarrow> bool" where
  "in_inventory inventory item =
     (case item of PStr k \<Rightarrow> map_of inventory k \<noteq> None | _ \<Rightarrow> False)"



text \<open>
  A quantity is strictly positive when the test \<open>qty <= 0\<close> of the program says no, and
  at or below zero when the test says yes (for a value that is not an int, a bool or a
  float the test raises and says neither).
\<close>

definition positive_qty :: "'f float_ops \<Rightarrow> 'f pyval \<Rightarrow> bool" where
  "positive_qty F v = (py_le_int F v 0 = Inr False)"

definition all_positive :: "'f float_ops \<Rightarrow> 'f inventory \<Rightarrow> bool" where
  "all_positive F inventory = list_all (\<lambda>(k, v). positive_qty F v) inventory"



text \<open>
  Well-typed additions and removals, and the quantity the specification expects for one
  item after a sequence of them: \<open>None\<close> while the item has no entry, otherwise the
  running sum of what was added minus what was removed since the entry was created. A
  removal from an item that has no entry changes nothing; a removal that takes the
  quantity to zero or below deletes the entry.
\<close>

datatype op = Op_add string int | Op_remove string int

fun call_of :: "op \<Rightarrow> 'f call" where
  "call_of (Op_add item qty) = Add (PStr item) (PInt qty)"
| "call_of (Op_remove item qty) = Remove (PStr item) (PInt qty)"

fun tally :: "string \<Rightarrow> int option \<Rightarrow> op list \<Rightarrow> int option" where
  "tally k s [] = s"
| "tally k s (Op_add item qty # ops) =
     tally k (if item = k then Some ((case s of None \<Rightarrow> 0 | Some t \<Rightarrow> t) + qty) else s) ops"
| "tally k s (Op_remove item qty # ops) =
     tally k (if item = k
              then (case s of None \<Rightarrow> None
                    | Some t \<Rightarrow> if t - qty \<le> 0 then None else Some (t - qty))
              else s) ops"

definition expected_qty :: "string \<Rightarrow> op list \<Rightarrow> int" where
  "expected_qty k ops = (case tally k None ops of None \<Rightarrow> 0 | Some t \<Rightarrow> t)"

text \<open>The sum of the quantities added for an item minus the quantities removed for it.\<close>

fun net :: "string \<Rightarrow> op list \<Rightarrow> int" where
  "net k [] = 0"
| "net k (Op_add item qty # ops) = (if item = k then qty else 0) + net k ops"
| "net k (Op_remove item qty # ops) = net k ops - (if item = k then qty else 0)"

text \<open>
  Every removal of the item in the sequence, made on an inventory that was empty at the
  start, leaves the entry of the item in place: it found the entry and did not take
  the quantity to zero or below.
\<close>

definition removals_keep :: "'f float_ops \<Rightarrow> string \<Rightarrow> op list \<Rightarrow> bool" where
  "removals_keep F k ops =
     list_all
       (\<lambda>n. case ops ! n of
              Op_add item qty \<Rightarrow> True
            | Op_remove item qty \<Rightarrow>
                item \<noteq> k \<or>
                in_inventory (fst (run F [] (map call_of (take (Suc n) ops)))) (PStr k))
       [0..<length ops]"

definition never_added :: "string \<Rightarrow> op list \<Rightarrow> bool" where
  "never_added k ops =
     list_all (\<lambda>x. case x of Op_add item qty \<Rightarrow> item \<noteq> k | Op_remove item qty \<Rightarrow> True) ops"

text \<open>The item a call adds to or removes from.\<close>

fun target :: "'f call \<Rightarrow> 'f pyval option" where
  "target (Add item qty) = Some item"
| "target (Remove item qty) = Some item"
| "target _ = None"

fun removal_target :: "'f call \<Rightarrow> 'f pyval option" where
  "removal_target (Remove item qty) = Some item"
| "removal_target _ = None"

text \<open>A float type with one value, to evaluate the operations on concrete inventories.\<close>

definition unit_floats :: "unit float_ops" where
  "unit_floats =
     \<lparr>float_of_int = (\<lambda>_. Some ()), fadd = (\<lambda>_ _. ()), fsub = (\<lambda>_ _. ()),
      flt_int = (\<lambda>_ _. False), fle_int = (\<lambda>_ _. False), fzero = ()\<rparr>"

section \<open>The json module\<close>






section \<open>Association lists of integers\<close>

lemma of_ints_Nil: "of_ints [] = []"
  by (simp add: of_ints_def)

lemma map_of_of_ints: "map_of (of_ints kvs) k = map_option PInt (map_of kvs k)"
  by (induction kvs) (auto simp: of_ints_def)

lemma update_of_ints: "AList.update k (PInt v) (of_ints kvs) = of_ints (AList.update k v kvs)"
  by (induction kvs) (auto simp: of_ints_def)

lemma delete_of_ints: "AList.delete k (of_ints kvs) = of_ints (AList.delete k kvs)"
  by (induction kvs) (auto simp: of_ints_def)

lemma update_absent: "k \<notin> fst ` set al \<Longrightarrow> AList.update k v al = al @ [(k, v)]"
  by (induction al) auto

section \<open>What a call leaves alone\<close>

lemma add_item_other:
  "item \<noteq> PStr k' \<Longrightarrow> map_of (store (add_item F inventory item qty)) k' = map_of inventory k'"
  by (cases item)
     (auto simp: add_item_def update_conv' split: option.splits sum.splits)

lemma add_item_keys:
  "k \<in> fst ` set inventory \<Longrightarrow> k \<in> fst ` set (store (add_item F inventory item qty))"
  by (cases item)
     (auto simp: add_item_def dom_update split: option.splits sum.splits)

lemma remove_item_other:
  "item \<noteq> PStr k' \<Longrightarrow> map_of (store (remove_item F inventory item qty)) k' = map_of inventory k'"
  by (cases item)
     (auto simp: remove_item_def remove_handler_def update_conv' delete_conv'
           split: option.splits sum.splits bool.splits)

lemma do_call_other:
  "target c \<noteq> Some (PStr k) \<Longrightarrow> map_of (store (do_call F inventory c)) k = map_of inventory k"
  by (cases c)
     (auto simp: add_item_other remove_item_other get_qty_def check_low_items_def
           split: sum.splits option.splits)

lemma do_call_keys:
  assumes "removal_target c \<noteq> Some (PStr k)" and "k \<in> fst ` set inventory"
  shows "k \<in> fst ` set (store (do_call F inventory c))"
proof (cases c)
  case (Remove item qty)
  with assms have "item \<noteq> PStr k" by simp
  then have "map_of (store (remove_item F inventory item qty)) k = map_of inventory k"
    by (rule remove_item_other)
  with assms Remove show ?thesis
    using map_of_eq_None_iff[of inventory k]
      map_of_eq_None_iff[of "store (remove_item F inventory item qty)" k]
    by auto
qed (use assms in \<open>auto simp: add_item_keys get_qty_def check_low_items_def
       split: sum.splits option.splits\<close>)

lemma run_other:
  "list_all (\<lambda>c. target c \<noteq> Some (PStr k)) cs \<Longrightarrow>
   map_of (fst (run F inventory cs)) k = map_of inventory k"
  by (induction cs arbitrary: inventory) (auto simp: do_call_other split: sum.splits)

lemma run_keys:
  "list_all (\<lambda>c. removal_target c \<noteq> Some (PStr k)) cs \<Longrightarrow> k \<in> fst ` set inventory \<Longrightarrow>
   k \<in> fst ` set (fst (run F inventory cs))"
  by (induction cs arbitrary: inventory) (auto simp: do_call_keys split: sum.splits)

section \<open>Well-typed calls on an inventory of integers\<close>

lemma add_item_of_ints:
  "add_item F (of_ints kvs) (PStr k) (PInt q) =
     \<lparr>store = of_ints (AList.update k ((case map_of kvs k of None \<Rightarrow> 0 | Some t \<Rightarrow> t) + q) kvs),
      printed = [Added (PInt q) (PStr k)], returned = Inr PNone\<rparr>"
  by (cases "map_of kvs k")
     (simp_all add: add_item_def isinstance_str_def isinstance_int_def map_of_of_ints
        py_add_def update_of_ints)

lemma remove_item_of_ints:
  "\<exists>ms. remove_item F (of_ints kvs) (PStr k) (PInt q) =
     \<lparr>store = of_ints (case map_of kvs k of None \<Rightarrow> kvs
                       | Some t \<Rightarrow> if t - q \<le> 0 then AList.delete k kvs
                                  else AList.update k (t - q) kvs),
      printed = ms, returned = Inr PNone\<rparr>"
  by (cases "map_of kvs k")
     (simp_all add: remove_item_def map_of_of_ints py_sub_def py_le_int_def
        update_of_ints delete_of_ints delete_update_same)

lemma run_of_ints:
  "\<exists>kvs'. run F (of_ints kvs) (map call_of ops) = (of_ints kvs', None) \<and>
          map_of kvs' k = tally k (map_of kvs k) ops"
proof (induction ops arbitrary: kvs)
  case Nil
  then show ?case by (auto intro: exI[of _ kvs])
next
  case (Cons x ops)
  show ?case
  proof (cases x)
    case (Op_add i q)
    let ?kvs1 = "AList.update i ((case map_of kvs i of None \<Rightarrow> 0 | Some t \<Rightarrow> t) + q) kvs"
    from Cons.IH[of ?kvs1] Op_add show ?thesis
      by (auto simp: add_item_of_ints update_conv')
  next
    case (Op_remove i q)
    let ?kvs1 = "case map_of kvs i of None \<Rightarrow> kvs
                 | Some t \<Rightarrow> if t - q \<le> 0 then AList.delete i kvs
                            else AList.update i (t - q) kvs"
    obtain ms where r: "remove_item F (of_ints kvs) (PStr i) (PInt q) =
       \<lparr>store = of_ints ?kvs1, printed = ms, returned = Inr PNone\<rparr>"
      using remove_item_of_ints by blast
    have m: "map_of ?kvs1 k =
       (if i = k
        then (case map_of kvs k of None \<Rightarrow> None
              | Some t \<Rightarrow> if t - q \<le> 0 then None else Some (t - q))
        else map_of kvs k)"
      by (auto simp: update_conv' delete_conv' split: option.splits)
    from Cons.IH[of ?kvs1] Op_remove r m show ?thesis
      by auto
  qed
qed

lemma tally_append: "tally k s (xs @ ys) = tally k (tally k s xs) ys"
  by (induction k s xs rule: tally.induct) auto

lemma net_append: "net k (xs @ ys) = net k xs + net k ys"
  by (induction k xs rule: net.induct) auto

lemma in_inventory_run:
  "in_inventory (fst (run F [] (map call_of ops))) (PStr k) \<longleftrightarrow> tally k None ops \<noteq> None"
proof -
  obtain kvs' where "run F (of_ints []) (map call_of ops) = (of_ints kvs', None)"
    and "map_of kvs' k = tally k (map_of [] k) ops"
    using run_of_ints[of F "[]" ops k] by blast
  then show ?thesis
    by (auto simp: in_inventory_def map_of_of_ints of_ints_Nil)
qed

lemma removals_keep_tally:
  "removals_keep F k ops \<longleftrightarrow>
     list_all
       (\<lambda>n. case ops ! n of
              Op_add item qty \<Rightarrow> True
            | Op_remove item qty \<Rightarrow> item \<noteq> k \<or> tally k None (take (Suc n) ops) \<noteq> None)
       [0..<length ops]"
  by (simp only: removals_keep_def in_inventory_run)

lemma removals_keep_snoc:
  "removals_keep F k (ops @ [x]) \<longleftrightarrow>
     removals_keep F k ops \<and>
     (case x of Op_add i q \<Rightarrow> True
      | Op_remove i q \<Rightarrow> i \<noteq> k \<or> tally k None (ops @ [x]) \<noteq> None)"
  unfolding removals_keep_tally
  by (auto simp: list_all_iff nth_append split: op.splits)

lemma tally_net:
  "removals_keep F k ops \<Longrightarrow>
     (case tally k None ops of None \<Rightarrow> net k ops = 0 | Some t \<Rightarrow> t = net k ops)"
proof (induction ops rule: rev_induct)
  case Nil
  then show ?case by simp
next
  case (snoc x ops)
  then show ?case
    by (cases x)
       (auto simp: removals_keep_snoc tally_append net_append split: option.splits if_splits)
qed

lemma tally_never_added: "never_added k ops \<Longrightarrow> tally k None ops = None"
  by (induction ops) (auto simp: never_added_def split: op.splits)

section \<open>Removal\<close>

text \<open>
  C2. In an inventory that holds the integer quantity \<open>q\<close> for \<open>item\<close>, removing the
  integer \<open>qty\<close> returns normally; when \<open>q - qty > 0\<close> the entry of the item holds
  \<open>q - qty\<close> afterwards and no other entry has changed, and when \<open>q - qty \<le> 0\<close> the
  entry of the item is gone, no other entry has changed, and \<open>get_qty\<close> returns 0.
\<close>

theorem remove_item_int:
  assumes "map_of inventory k = Some (PInt q)"
  shows "returned (remove_item F inventory (PStr k) (PInt qty)) = Inr PNone \<and>
     (if q - qty > 0
      then map_of (store (remove_item F inventory (PStr k) (PInt qty))) =
             (map_of inventory)(k \<mapsto> PInt (q - qty)) \<and>
           returned (get_qty (store (remove_item F inventory (PStr k) (PInt qty))) (PStr k)) =
             Inr (PInt (q - qty))
      else map_of (store (remove_item F inventory (PStr k) (PInt qty))) =
             (map_of inventory)(k := None) \<and>
           k \<notin> fst ` set (store (remove_item F inventory (PStr k) (PInt qty))) \<and>
           returned (get_qty (store (remove_item F inventory (PStr k) (PInt qty))) (PStr k)) =
             Inr (PInt 0))"
  using assms
  by (auto simp: remove_item_def py_sub_def py_le_int_def get_qty_def update_conv' delete_conv'
        delete_update_same delete_notin_dom)

theorem remove_item_int_witness:
  "returned (get_qty (store (remove_item unit_floats [(''apple'', PInt 10)]
      (PStr ''apple'') (PInt 3))) (PStr ''apple'')) = Inr (PInt 7) \<and>
   ''apple'' \<notin> fst ` set (store (remove_item unit_floats [(''apple'', PInt 7)]
      (PStr ''apple'') (PInt 7))) \<and>
   returned (get_qty (store (remove_item unit_floats [(''apple'', PInt 7)]
      (PStr ''apple'') (PInt 7))) (PStr ''apple'')) = Inr (PInt 0) \<and>
   ''apple'' \<notin> fst ` set (store (remove_item unit_floats [(''apple'', PInt 7)]
      (PStr ''apple'') (PInt 9)))"
proof -
  have a: "map_of [(''apple'', PInt 10 :: unit pyval)] ''apple'' = Some (PInt 10)"
    and b: "map_of [(''apple'', PInt 7 :: unit pyval)] ''apple'' = Some (PInt 7)"
    by simp_all
  show ?thesis
    using remove_item_int [OF a, of unit_floats 3] remove_item_int [OF b, of unit_floats 7]
      remove_item_int [OF b, of unit_floats 9]
    by (simp add: get_qty_def)
qed

text \<open>
  C8. Removing an item that is not in the inventory leaves the inventory as it was,
  whatever the quantity; unless the item is unhashable, the call prints the warning and
  returns normally.
\<close>

theorem remove_item_absent:
  "\<not> in_inventory inventory item \<Longrightarrow>
   store (remove_item F inventory item qty) = inventory \<and>
   (key_of item \<noteq> Inl TypeError \<longrightarrow>
      printed (remove_item F inventory item qty) = [Warning_not_in_stock item] \<and>
      returned (remove_item F inventory item qty) = Inr PNone)"
  by (cases item) (auto simp: remove_item_def in_inventory_def split: option.splits)

theorem remove_item_absent_witness:
  "\<not> in_inventory [(''apple'', PInt 7 :: unit pyval)] (PStr ''orange'') \<and>
   remove_item unit_floats [(''apple'', PInt 7)] (PStr ''orange'') (PInt 1) =
     \<lparr>store = [(''apple'', PInt 7)], printed = [Warning_not_in_stock (PStr ''orange'')],
      returned = Inr PNone\<rparr>"
proof -
  have a: "\<not> in_inventory [(''apple'', PInt 7 :: unit pyval)] (PStr ''orange'')"
    by (simp add: in_inventory_def)
  show ?thesis
    using a remove_item_absent [OF a, of unit_floats "PInt 1"]
    by simp
qed





section \<open>Addition\<close>

text \<open>
  C7. When the item is not a string or the quantity is not an integer, \<open>add_item\<close>
  prints the error for the invalid types, returns normally, and leaves the inventory as it
  was.
\<close>

theorem add_item_invalid_types:
  "\<not> isinstance_str item \<or> \<not> isinstance_int qty \<Longrightarrow>
   add_item F inventory item qty =
     \<lparr>store = inventory, printed = [Error_invalid_types (type_of item) (type_of qty)],
      returned = Inr PNone\<rparr>"
  by (auto simp: add_item_def)

theorem add_item_invalid_types_witness:
  "add_item unit_floats [(''apple'', PInt 10), (''banana'', PInt 2)] (PInt 123) (PStr ''ten'') =
     \<lparr>store = [(''apple'', PInt 10), (''banana'', PInt 2)],
      printed = [Error_invalid_types T_int T_str], returned = Inr PNone\<rparr> \<and>
   add_item unit_floats [(''apple'', PInt 10)] (PStr ''apple'') (PStr ''ten'') =
     \<lparr>store = [(''apple'', PInt 10)],
      printed = [Error_invalid_types T_str T_str], returned = Inr PNone\<rparr> \<and>
   add_item unit_floats [(''apple'', PInt 10)] PNone (PInt 1) =
     \<lparr>store = [(''apple'', PInt 10)],
      printed = [Error_invalid_types NoneType T_int], returned = Inr PNone\<rparr>"
proof -
  have a: "\<not> isinstance_str (PInt 123 :: unit pyval) \<or> \<not> isinstance_int (PStr ''ten'' :: unit pyval)"
    and b: "\<not> isinstance_str (PStr ''apple'' :: unit pyval) \<or> \<not> isinstance_int (PStr ''ten'' :: unit pyval)"
    and c: "\<not> isinstance_str (PNone :: unit pyval) \<or> \<not> isinstance_int (PInt 1 :: unit pyval)"
    by (simp_all add: isinstance_str_def isinstance_int_def)
  show ?thesis
    using add_item_invalid_types [OF a, of unit_floats "[(''apple'', PInt 10), (''banana'', PInt 2)]"]
      add_item_invalid_types [OF b, of unit_floats "[(''apple'', PInt 10)]"]
      add_item_invalid_types [OF c, of unit_floats "[(''apple'', PInt 10)]"]
    by simp
qed

section \<open>Low stock\<close>

lemma low_items_of_ints:
  "low_items F (of_ints kvs) t = Inr (map fst (filter (\<lambda>(k, q). q < t) kvs))"
  by (induction kvs) (auto simp: of_ints_def py_lt_int_def)

text \<open>
  C5. On an inventory of integer quantities, \<open>check_low_items\<close> returns the names of
  exactly the items whose quantity is strictly below the threshold, in the order of the
  inventory, prints nothing and leaves the inventory as it was.
\<close>

theorem check_low_items_of_ints:
  "check_low_items F (of_ints kvs) threshold =
     \<lparr>store = of_ints kvs, printed = [],
      returned =
        Inr (PList (map PStr (map fst (filter (\<lambda>(item, qty). qty < threshold) kvs))))\<rparr>"
  by (simp add: check_low_items_def low_items_of_ints)

theorem check_low_items_of_ints_witness:
  "check_low_items unit_floats [(''apple'', PInt 3), (''banana'', PInt 10)] 5 =
     \<lparr>store = [(''apple'', PInt 3), (''banana'', PInt 10)], printed = [],
      returned = Inr (PList [PStr ''apple''])\<rparr>"
  using check_low_items_of_ints [of unit_floats "[(''apple'', 3), (''banana'', 10)]" 5]
  by (simp add: of_ints_def)

section \<open>Loading\<close>




section \<open>Quantities at or below zero\<close>






lemma py_sub_number: "py_sub F old qty = Inr v \<Longrightarrow> as_num v \<noteq> None"
  by (auto simp: py_sub_def split: option.splits sum.splits elim!: num_binop.elims)






lemma add_item_new:
  "k \<notin> fst ` set inventory \<Longrightarrow>
   add_item F inventory (PStr k) (PInt q) =
     \<lparr>store = inventory @ [(k, PInt q)], printed = [Added (PInt q) (PStr k)],
      returned = Inr PNone\<rparr>"
  by (simp add: add_item_def isinstance_str_def isinstance_int_def
        map_of_eq_None_iff[THEN iffD2] py_add_def update_absent)

text \<open>
  C10. \<open>add_item\<close> puts no lower bound on the quantity: for an item that has no entry
  and an integer quantity at or below zero, it appends an entry with exactly that
  quantity, so the inventory then has an entry at or below zero, and \<open>get_qty\<close> returns
  that quantity. The entry stays as it is through every later sequence of calls in which
  no addition and no removal names the item (queries of quantities and of low stock,
  additions and removals of other items), and the item keeps an entry through every
  sequence of calls in which no removal names it.
\<close>

theorem add_item_nonpositive:
  assumes "k \<notin> fst ` set inventory" and "qty \<le> 0"
  shows "add_item F inventory (PStr k) (PInt qty) =
       \<lparr>store = inventory @ [(k, PInt qty)], printed = [Added (PInt qty) (PStr k)],
        returned = Inr PNone\<rparr> \<and>
     \<not> all_positive F (inventory @ [(k, PInt qty)]) \<and>
     returned (get_qty (inventory @ [(k, PInt qty)]) (PStr k)) = Inr (PInt qty) \<and>
     (list_all (\<lambda>c. target c \<noteq> Some (PStr k)) cs \<longrightarrow>
        map_of (fst (run F (inventory @ [(k, PInt qty)]) cs)) k = Some (PInt qty)) \<and>
     (list_all (\<lambda>c. removal_target c \<noteq> Some (PStr k)) cs \<longrightarrow>
        k \<in> fst ` set (fst (run F (inventory @ [(k, PInt qty)]) cs)))"
proof -
  have m: "map_of (inventory @ [(k, PInt qty)]) k = Some (PInt qty)"
    using assms(1) by (simp add: map_of_eq_None_iff[THEN iffD2] map_add_def)
  have "\<not> positive_qty F (PInt qty)"
    using assms(2) by (simp add: positive_qty_def py_le_int_def)
  then have "\<not> all_positive F (inventory @ [(k, PInt qty)])"
    by (simp add: all_positive_def)
  moreover have "returned (get_qty (inventory @ [(k, PInt qty)]) (PStr k)) = Inr (PInt qty)"
    using m by (simp add: get_qty_def)
  moreover have "map_of (fst (run F (inventory @ [(k, PInt qty)]) cs)) k = Some (PInt qty)"
    if "list_all (\<lambda>c. target c \<noteq> Some (PStr k)) cs"
    using run_other [OF that] m by simp
  moreover have "k \<in> fst ` set (fst (run F (inventory @ [(k, PInt qty)]) cs))"
    if "list_all (\<lambda>c. removal_target c \<noteq> Some (PStr k)) cs"
    using run_keys [OF that, of "inventory @ [(k, PInt qty)]" F] by simp
  ultimately show ?thesis
    using add_item_new [OF assms(1)] by simp
qed

theorem add_item_nonpositive_witness:
  "add_item unit_floats [(''apple'', PInt 7)] (PStr ''pear'') (PInt (- 5)) =
     \<lparr>store = [(''apple'', PInt 7)] @ [(''pear'', PInt (- 5))],
      printed = [Added (PInt (- 5)) (PStr ''pear'')], returned = Inr PNone\<rparr> \<and>
   returned (get_qty ([(''apple'', PInt 7)] @ [(''pear'', PInt (- 5))]) (PStr ''pear'')) =
     Inr (PInt (- 5) :: unit pyval) \<and>
   map_of (fst (run unit_floats ([(''apple'', PInt 7)] @ [(''pear'', PInt (- 5))])
     [GetQuantity (PStr ''pear''), CheckLowStock 5, Remove (PStr ''apple'') (PInt 7),
      Add (PStr ''kiwi'') (PInt 1)])) ''pear'' = Some (PInt (- 5)) \<and>
   ''pear'' \<in> fst ` set (fst (run unit_floats ([(''apple'', PInt 7)] @ [(''pear'', PInt (- 5))])
     [GetQuantity (PStr ''pear''), CheckLowStock 5, Remove (PStr ''apple'') (PInt 7),
      Add (PStr ''kiwi'') (PInt 1)]))"
proof -
  have a: "''pear'' \<notin> fst ` set [(''apple'', PInt 7 :: unit pyval)]"
    and b: "(- 5 :: int) \<le> 0"
    by simp_all
  have c: "list_all (\<lambda>c. target c \<noteq> Some (PStr ''pear''))
      [GetQuantity (PStr ''pear''), CheckLowStock 5, Remove (PStr ''apple'') (PInt 7),
       Add (PStr ''kiwi'') (PInt 1 :: unit pyval)]"
    and d: "list_all (\<lambda>c. removal_target c \<noteq> Some (PStr ''pear''))
      [GetQuantity (PStr ''pear''), CheckLowStock 5, Remove (PStr ''apple'') (PInt 7),
       Add (PStr ''kiwi'') (PInt 1 :: unit pyval)]"
    by simp_all
  show ?thesis
    using c d
      add_item_nonpositive [OF a b, of unit_floats
        "[GetQuantity (PStr ''pear''), CheckLowStock 5, Remove (PStr ''apple'') (PInt 7),
          Add (PStr ''kiwi'') (PInt 1)]"]
    by blast
qed

section \<open>Sequences of additions and removals\<close>

text \<open>
  C1. Starting from the empty inventory, a sequence of additions and removals with
  string items and integer quantities runs to its end without an exception, and
  \<open>get_qty\<close> then returns for every item the quantity \<open>expected_qty\<close> keeps for it: the
  running sum of the quantities added minus the quantities removed, which starts again
  from nothing each time a removal takes it to zero or below and deletes the entry. When
  every removal of the item found its entry and left it in place, that is the sum of all
  quantities added for the item minus all quantities removed for it; for an item that
  was never added it is 0.
\<close>

theorem get_qty_after_calls:
  "snd (run F [] (map call_of ops)) = None \<and>
   returned (get_qty (fst (run F [] (map call_of ops))) (PStr k)) =
     Inr (PInt (expected_qty k ops)) \<and>
   (removals_keep F k ops \<longrightarrow>
      returned (get_qty (fst (run F [] (map call_of ops))) (PStr k)) = Inr (PInt (net k ops))) \<and>
   (never_added k ops \<longrightarrow>
      returned (get_qty (fst (run F [] (map call_of ops))) (PStr k)) = Inr (PInt 0))"
proof -
  obtain kvs' where r: "run F (of_ints []) (map call_of ops) = (of_ints kvs', None)"
    and m: "map_of kvs' k = tally k (map_of [] k) ops"
    using run_of_ints [of F "[]" ops k] by blast
  have q: "returned (get_qty (fst (run F [] (map call_of ops))) (PStr k)) =
      Inr (PInt (expected_qty k ops))"
    using r m
    by (auto simp: get_qty_def map_of_of_ints of_ints_Nil expected_qty_def split: option.splits)
  have "expected_qty k ops = net k ops" if "removals_keep F k ops"
    using tally_net [OF that] by (auto simp: expected_qty_def split: option.splits)
  moreover have "expected_qty k ops = 0" if "never_added k ops"
    using tally_never_added [OF that] by (simp add: expected_qty_def)
  ultimately show ?thesis
    using r q by (auto simp: of_ints_Nil)
qed

theorem get_qty_after_calls_witness:
  "removals_keep unit_floats ''apple''
     [Op_add ''apple'' 10, Op_add ''banana'' 2, Op_remove ''apple'' 3] \<and>
   net ''apple'' [Op_add ''apple'' 10, Op_add ''banana'' 2, Op_remove ''apple'' 3] = 7 \<and>
   returned (get_qty (fst (run unit_floats []
     (map call_of [Op_add ''apple'' 10, Op_add ''banana'' 2, Op_remove ''apple'' 3])))
     (PStr ''apple'')) =
     Inr (PInt (net ''apple'' [Op_add ''apple'' 10, Op_add ''banana'' 2, Op_remove ''apple'' 3])) \<and>
   never_added ''orange'' [Op_add ''apple'' 10, Op_add ''banana'' 2, Op_remove ''apple'' 3] \<and>
   returned (get_qty (fst (run unit_floats []
     (map call_of [Op_add ''apple'' 10, Op_add ''banana'' 2, Op_remove ''apple'' 3])))
     (PStr ''orange'')) = Inr (PInt 0) \<and>
   expected_qty ''apple'' [Op_add ''apple'' 5, Op_remove ''apple'' 7, Op_add ''apple'' 3] = 3 \<and>
   returned (get_qty (fst (run unit_floats []
     (map call_of [Op_add ''apple'' 5, Op_remove ''apple'' 7, Op_add ''apple'' 3])))
     (PStr ''apple'')) =
     Inr (PInt (expected_qty ''apple''
       [Op_add ''apple'' 5, Op_remove ''apple'' 7, Op_add ''apple'' 3]))"
proof -
  have a: "removals_keep unit_floats ''apple''
      [Op_add ''apple'' 10, Op_add ''banana'' 2, Op_remove ''apple'' 3]"
    by code_simp
  have b: "never_added ''orange''
      [Op_add ''apple'' 10, Op_add ''banana'' 2, Op_remove ''apple'' 3]"
    by (simp add: never_added_def)
  have c: "net ''apple'' [Op_add ''apple'' 10, Op_add ''banana'' 2, Op_remove ''apple'' 3] = 7"
    and d: "expected_qty ''apple''
      [Op_add ''apple'' 5, Op_remove ''apple'' 7, Op_add ''apple'' 3] = 3"
    by (simp_all add: expected_qty_def)
  show ?thesis
    using a b c d
      get_qty_after_calls [of unit_floats
        "[Op_add ''apple'' 10, Op_add ''banana'' 2, Op_remove ''apple'' 3]" "''apple''"]
      get_qty_after_calls [of unit_floats
        "[Op_add ''apple'' 10, Op_add ''banana'' 2, Op_remove ''apple'' 3]" "''orange''"]
      get_qty_after_calls [of unit_floats
        "[Op_add ''apple'' 5, Op_remove ''apple'' 7, Op_add ''apple'' 3]" "''apple''"]
    by metis
qed

end
